theory Spec2Isabelle
  imports Main "HOL-Library.Word"
begin

section \<open>Values of the SDK\<close>

text \<open>
  The repository holds three generations of the class \<open>AuthProxyClient\<close>:
  \<^item> the client with a stored user key and a reconnect on HTTP 401
    (\<open>src/unnamed/part_000\<close>, lines 109-508), here with the suffix \<open>1\<close>;
  \<^item> the client without reconnect (\<open>src/unnamed/part_000\<close>, lines 524-841), suffix \<open>2\<close>;
  \<^item> the first SDK (\<open>src/SDK/JavaScript/src/index.ts\<close> with
    \<open>api/api-request/index.ts\<close>), suffix \<open>3\<close>.

  Strings are \<open>string\<close>, a character standing for a code unit below 256; \<open>null\<close>
  and \<open>undefined\<close> of an optional field are \<open>None\<close>.
  A thrown JavaScript exception (a rejected promise of an \<open>async\<close> method) is the
  left injection of a sum.
\<close>

type_synonym bytes = "8 word list"

datatype jsval =
    JUndefined
  | JNull
  | JBool bool
  | JNum int
  | JStr string
  | JArr "jsval list"
  | JObj "(string \<times> jsval) list"

datatype exn = TypeError | SyntaxError

text \<open>
  \<open>String.prototype.trim\<close> removes white space and line terminators from both ends;
  below 256 these are tab, line feed, vertical tab, form feed, carriage return, space
  and the no-break space.
\<close>

definition isWhiteSpace :: "char \<Rightarrow> bool" where
  "isWhiteSpace c =
     (c = CHR 0x09 \<or> c = CHR 0x0A \<or> c = CHR 0x0B \<or> c = CHR 0x0C \<or> c = CHR 0x0D
      \<or> c = CHR '' '' \<or> c = CHR 0xA0)"

definition trim :: "string \<Rightarrow> string" where
  "trim s = rev (dropWhile isWhiteSpace (rev (dropWhile isWhiteSpace s)))"

text \<open>Truthiness of a value of type \<open>string | null\<close>: the empty string is falsy.\<close>

definition truthy :: "string option \<Rightarrow> bool" where
  "truthy v = (case v of None \<Rightarrow> False | Some x \<Rightarrow> x \<noteq> [])"

text \<open>
  \<open>str.match(/sid=([^;]+)/)\<close>: the leftmost position where \<open>sid=\<close> is followed by at
  least one character other than \<open>;\<close>; the group is the longest run of such characters.
  \<open>None\<close> is the \<open>null\<close> of a failed match.
\<close>

fun match_sid :: "string \<Rightarrow> string option" where
  "match_sid [] = None"
| "match_sid (c # cs) =
     (let grp = takeWhile (\<lambda>x. x \<noteq> CHR '';'') (drop 4 (c # cs))
      in if take 4 (c # cs) = ''sid='' \<and> grp \<noteq> [] then Some grp else match_sid cs)"

text \<open>The decimal digits of a number, as a template literal prints \<open>response.status\<close>.\<close>

definition digit :: "nat \<Rightarrow> char" where
  "digit d = ''0123456789'' ! d"

function string_of_nat :: "nat \<Rightarrow> string" where
  "string_of_nat n = (if 9 < n then string_of_nat (n div 10) @ [digit (n mod 10)] else [digit n])"
  by pat_completeness auto
termination
  by (relation "measure id") auto

declare string_of_nat.simps [simp del]

subsection \<open>The response model (\<open>./model\<close>)\<close>

record error_object =
  code :: "int option"
  message :: "string option"

text \<open>
  \<open>ApiResponse<T>\<close> and \<open>ApiResponseExt<T>\<close>: \<open>headers\<close> is \<open>None\<close> where the object has no
  such property or holds \<open>null\<close>.
\<close>

record 'a api_response =
  result :: "'a option"
  error :: "error_object option"
  headers :: "(string \<rightharpoonup> string) option"

text \<open>
  Modelled from the spec: the declaration of \<open>AuthOptions\<close> in \<open>./model\<close> is not among
  the sources; the bundle holds \<open>challenge\<close>, the correlation token \<open>challenge_id\<close> and, for
  enrolment, the nested \<open>fido2_options.challenge\<close>.
\<close>

record fido2 =
  fido2_challenge :: string

record auth_options =
  challenge :: string
  challenge_id :: string
  fido2_options :: fido2

text \<open>\<open>LoginInfo\<close>, the object given to \<open>JSON.stringify\<close> for the request body.\<close>

record login_info =
  li_challenge_id :: string
  li_credential :: "jsval option"
  li_code :: "string option"
  li_public_key :: string
  li_signature :: string

subsection \<open>Requests and what \<open>fetch\<close> settles to\<close>

record request_init =
  init_method :: string
  init_credentials :: "string option"
  init_body :: "login_info option"
  init_headers :: "string \<rightharpoonup> string"

record request =
  url :: string
  http_method :: string
  credentials :: string
  req_headers :: "string \<rightharpoonup> string"
  req_body :: "login_info option"

text \<open>
  The body of a response as \<open>await response.json()\<close> reads it at the type
  \<open>ApiResponseExt<T>\<close>: either the call throws (with \<open>e?.message\<close>), or it gives the
  properties \<open>result\<close> and \<open>error\<close>.
\<close>

datatype 'a json_body =
    InvalidJson "string option"
  | JsonBody "'a option" "error_object option"

record 'a response =
  status :: nat
  statusText :: string
  resp_headers :: "(string \<times> string) list"
  body :: "'a json_body"

text \<open>
  The value a \<open>fetch\<close> promise settles to. A promise settles once: every \<open>await\<close> of the
  same promise gives the same value.
\<close>

datatype 'a settled =
    Rejected "string option"
  | Resolved "'a response"

definition ok :: "'a response \<Rightarrow> bool" where
  "ok r = (200 \<le> status r \<and> status r \<le> 299)"

text \<open>\<open>response.headers.forEach((value, key) => { headers[key] = value })\<close>\<close>

definition collect_headers :: "(string \<times> string) list \<Rightarrow> (string \<rightharpoonup> string)" where
  "collect_headers hs = foldl (\<lambda>m kv. m(fst kv \<mapsto> snd kv)) Map.empty hs"

subsection \<open>The platform\<close>

text \<open>
  Everything the classes call and the repository does not define under \<open>src/\<close> is a
  field of the platform: the network (\<open>fetch\<close> followed by \<open>response.json()\<close> read at
  the type parameter of \<open>ApiRequest<T>\<close>), the \<open>elliptic\<close> library, Node's base64
  decoder, \<open>JSON.parse\<close>, the \<open>EventSource\<close> constructor, the sources of entropy, the
  configuration file, \<open>version\<close> of \<open>package.json\<close>, the environment variable
  \<open>AUTH_API_URL\<close>, and the helpers \<open>coerceToBase64Url\<close>, \<open>getRandomText\<close>,
  \<open>genSha256\<close> and \<open>formatAsNumber\<close>. Calls that may read or change something outside
  the client take the world \<open>'w\<close> and return it; the calls into \<open>elliptic\<close> do so too, so
  that a library drawing on hidden state is not excluded by the types. The encoder, the
  digest and the number format are functions of their argument; the random text is drawn
  from the world.
\<close>

record config_data =
  cfg_deviceGuid :: "string option"
  cfg_rest :: jsval

record ('w, 'k) platform =
  fetch_AuthOptions :: "request \<Rightarrow> 'w \<Rightarrow> auth_options settled \<times> 'w"
  fetch_string :: "request \<Rightarrow> 'w \<Rightarrow> string settled \<times> 'w"
  fetch_unknown :: "request \<Rightarrow> 'w \<Rightarrow> jsval settled \<times> 'w"
  keyFromSecret :: "string \<Rightarrow> 'w \<Rightarrow> 'k \<times> 'w"
  getPublic :: "'k \<Rightarrow> 'w \<Rightarrow> bytes \<times> 'w"
  sign :: "'k \<Rightarrow> bytes \<Rightarrow> 'w \<Rightarrow> bytes \<times> 'w"
  coerceToBase64Url :: "bytes \<Rightarrow> string"
  Buffer_from_base64 :: "string \<Rightarrow> bytes"
  getRandomText :: "'w \<Rightarrow> string \<times> 'w"
  genSha256 :: "string \<Rightarrow> string"
  formatAsNumber :: "string \<Rightarrow> string option"
  JSON_parse :: "string \<Rightarrow> exn + jsval"
  new_EventSource :: "string \<Rightarrow> 'w \<Rightarrow> (exn + nat) \<times> 'w"
  EventSource_close :: "nat \<Rightarrow> 'w \<Rightarrow> 'w"
  randomUUID :: "'w \<Rightarrow> string \<times> 'w"
  fs_existsSync :: "'w \<Rightarrow> bool \<times> 'w"
  read_config :: "'w \<Rightarrow> (exn + config_data) \<times> 'w"
  getRandomUint8Array :: "'w \<Rightarrow> bytes \<times> 'w"
  uuidV4 :: "bytes \<Rightarrow> string"
  write_config :: "config_data \<Rightarrow> 'w \<Rightarrow> exn option \<times> 'w"
  version :: string
  AUTH_API_URL :: "string option"

datatype log_line =
    ConsoleLog "jsval list"
  | ConsoleError string

text \<open>
  The fields of the object, followed by what lies outside it: the world, the requests
  given to \<open>fetch\<close> so far (oldest first) and the lines written to the console.
\<close>

record 'w client =
  BaseUrl :: string
  esLink :: "nat option"
  isConnectedES :: bool
  sessionId :: "string option"
  deviceGuid :: "string option"
  world :: 'w
  sent :: "request list"
  console :: "log_line list"

section \<open>Helpers shared by the classes\<close>

text \<open>\<open>src/SDK/JavaScript/src/utils/base64ToUint8Array.ts\<close>\<close>

definition base64ToUint8Array :: "('w, 'k) platform \<Rightarrow> string \<Rightarrow> bytes" where
  "base64ToUint8Array P str =
     Buffer_from_base64 P
       (map (\<lambda>c. if c = CHR ''_'' then CHR ''/'' else c)
          (map (\<lambda>c. if c = CHR ''-'' then CHR ''+'' else c) str))"

text \<open>\<open>helpers/generateKeys\<close> (\<open>src/unnamed/part_001\<close>)\<close>

record keys =
  signature :: string
  public_key :: string

definition generateKeys :: "('w, 'k) platform \<Rightarrow> string \<Rightarrow> bytes \<Rightarrow> 'w \<Rightarrow> keys \<times> 'w" where
  "generateKeys P passKey challengeBuf w =
     (let (key, w1) = keyFromSecret P passKey w;
          (pub, w2) = getPublic P key w1;
          (sig, w3) = sign P key challengeBuf w2
      in (\<lparr>signature = coerceToBase64Url P sig, public_key = coerceToBase64Url P pub\<rparr>, w3))"

definition validationErrorResponse :: "string \<Rightarrow> 'a api_response" where
  "validationErrorResponse msg =
     \<lparr>result = None, error = Some \<lparr>code = Some (- 1), message = Some msg\<rparr>, headers = None\<rparr>"

text \<open>
  The expression \<open>loginResponse.headers['set-cookie'].match(/sid=([^;]+)/)[1]\<close>: a
  \<open>TypeError\<close> where \<open>headers\<close> is \<open>null\<close>, the header is absent (\<open>undefined.match\<close>) or
  the pattern does not match (\<open>null[1]\<close>).
\<close>

definition cookie_sid :: "'a api_response \<Rightarrow> exn + string" where
  "cookie_sid r =
     (case headers r of
        None \<Rightarrow> Inl TypeError
      | Some h \<Rightarrow>
          (case h ''set-cookie'' of
             None \<Rightarrow> Inl TypeError
           | Some c \<Rightarrow> (case match_sid c of None \<Rightarrow> Inl TypeError | Some sid \<Rightarrow> Inr sid)))"

text \<open>The headers of every request of the two later clients.\<close>

definition defaultHeaders :: "string \<rightharpoonup> string" where
  "defaultHeaders = [''Accept'' \<mapsto> ''application/json'', ''Content-Type'' \<mapsto> ''application/json'']"

definition cookie_header :: "string option \<Rightarrow> (string \<rightharpoonup> string)" where
  "cookie_header sid = (if truthy sid then [''Cookie'' \<mapsto> ''sid='' @ the sid] else Map.empty)"

text \<open>
  The call \<open>fetch(this.BaseUrl + url, {credentials: "include", ...init, headers: {...}})\<close>:
  the request is built from the current session, given to the network and recorded.
\<close>

definition build_request :: "('w, 'z) client_scheme \<Rightarrow> string \<Rightarrow> request_init \<Rightarrow> request" where
  "build_request s u init =
     \<lparr>url = BaseUrl s @ u, http_method = init_method init,
      credentials = (case init_credentials init of None \<Rightarrow> ''include'' | Some c \<Rightarrow> c),
      req_headers = defaultHeaders ++ init_headers init ++ cookie_header (sessionId s),
      req_body = init_body init\<rparr>"

definition call_fetch ::
  "(request \<Rightarrow> 'w \<Rightarrow> 'a settled \<times> 'w) \<Rightarrow> string \<Rightarrow> request_init \<Rightarrow> ('w, 'z) client_scheme
     \<Rightarrow> 'a settled \<times> ('w, 'z) client_scheme" where
  "call_fetch fetch u init s =
     (let req = build_request s u init;
          (p, w) = fetch req (world s)
      in (p, s\<lparr>world := w, sent := sent s @ [req]\<rparr>))"

text \<open>
  What \<open>ApiRequest\<close> returns for a settled \<open>fetch\<close>: the \<open>catch\<close> branch for a rejected
  promise or a body that is not JSON, the parsed body with the collected headers for a
  2xx status, the status line otherwise.
\<close>

definition response_of :: "'a settled \<Rightarrow> 'a api_response" where
  "response_of p =
     (case p of
        Rejected m \<Rightarrow> \<lparr>result = None, error = Some \<lparr>code = None, message = m\<rparr>, headers = None\<rparr>
      | Resolved r \<Rightarrow>
          if ok r then
            (case body r of
               InvalidJson m \<Rightarrow>
                 \<lparr>result = None, error = Some \<lparr>code = None, message = m\<rparr>, headers = None\<rparr>
             | JsonBody res err \<Rightarrow>
                 \<lparr>result = res, error = err, headers = Some (collect_headers (resp_headers r))\<rparr>)
          else
            \<lparr>result = None,
             error = Some \<lparr>code = None,
               message = Some (''Status: '' @ string_of_nat (status r) @ ''. '' @ statusText r)\<rparr>,
             headers = Some Map.empty\<rparr>)"

definition GET :: request_init where
  "GET = \<lparr>init_method = ''GET'', init_credentials = None, init_body = None,
          init_headers = Map.empty\<rparr>"

section \<open>The client without reconnect (\<open>part_000\<close>, lines 524-841)\<close>

definition AuthProxyClient2 :: "string \<Rightarrow> 'w \<Rightarrow> 'w client" where
  "AuthProxyClient2 baseUrl w =
     \<lparr>BaseUrl = baseUrl, esLink = None, isConnectedES = False, sessionId = None,
      deviceGuid = None, world = w, sent = [], console = []\<rparr>"

definition ApiRequest2 ::
  "(request \<Rightarrow> 'w \<Rightarrow> 'a settled \<times> 'w) \<Rightarrow> string \<Rightarrow> request_init \<Rightarrow> ('w, 'z) client_scheme
     \<Rightarrow> 'a api_response \<times> ('w, 'z) client_scheme" where
  "ApiRequest2 fetch u init s =
     (let (response, s1) = call_fetch fetch u init s
      in (response_of response, s1))"

definition getDeviceGuid2 ::
  "('w, 'k) platform \<Rightarrow> ('w, 'z) client_scheme \<Rightarrow> string \<times> ('w, 'z) client_scheme" where
  "getDeviceGuid2 P s =
     (if \<not> truthy (deviceGuid s) then
        (let (g, w) = randomUUID P (world s) in (g, s\<lparr>deviceGuid := Some g, world := w\<rparr>))
      else (the (deviceGuid s), s))"

definition SignInUserKey2 ::
  "('w, 'k) platform \<Rightarrow> string \<Rightarrow> ('w, 'z) client_scheme
     \<Rightarrow> (exn + string api_response) \<times> ('w, 'z) client_scheme" where
  "SignInUserKey2 P userKey s =
     (if trim userKey = [] then (Inr (validationErrorResponse ''User key must be not empty''), s)
      else
        let (loginOptionResponse, s1) = ApiRequest2 (fetch_AuthOptions P) ''auth/v1/login_options'' GET s
        in case result loginOptionResponse of
             None \<Rightarrow> (Inr \<lparr>result = None, error = error loginOptionResponse, headers = None\<rparr>, s1)
           | Some authOptions \<Rightarrow>
               let challengeBuf = base64ToUint8Array P (challenge authOptions);
                   (ks, w2) = generateKeys P userKey challengeBuf (world s1);
                   s2 = s1\<lparr>world := w2\<rparr>;
                   data = \<lparr>li_challenge_id = challenge_id authOptions, li_credential = Some JNull,
                           li_code = None, li_public_key = public_key ks,
                           li_signature = signature ks\<rparr>;
                   (guid, s3) = getDeviceGuid2 P s2;
                   (loginResponse, s4) =
                     ApiRequest2 (fetch_string P) ''auth/v1/login''
                       \<lparr>init_method = ''POST'', init_credentials = None, init_body = Some data,
                        init_headers = [''resolution'' \<mapsto> ''1x1'', ''device_guid'' \<mapsto> guid]\<rparr> s3
               in if truthy (result loginResponse) \<and> result loginResponse \<noteq> Some ''Failure'' then
                    (case cookie_sid loginResponse of
                       Inl e \<Rightarrow> (Inl e, s4)
                     | Inr sid \<Rightarrow> (Inr loginResponse, s4\<lparr>sessionId := Some sid\<rparr>))
                  else (Inr loginResponse, s4))"

section \<open>Methods with the same text in both later clients\<close>

text \<open>
  \<open>GetInfo\<close>, \<open>GetLoginLog\<close>, \<open>Logout\<close>, \<open>InitializeNewKey\<close>, \<open>CreateUserKey\<close> and
  \<open>getMessageFromEvent\<close> read the same in both classes of \<open>part_000\<close>; they differ only
  in the \<open>ApiRequest\<close> of their class, which is the argument \<open>api\<close>.
\<close>

definition GetInfo ::
  "(string \<Rightarrow> request_init \<Rightarrow> 's \<Rightarrow> jsval api_response \<times> 's) \<Rightarrow> 's \<Rightarrow> jsval api_response \<times> 's" where
  "GetInfo api s = api ''auth/v1/get_info'' GET s"

definition GetLoginLog ::
  "(string \<Rightarrow> request_init \<Rightarrow> 's \<Rightarrow> jsval api_response \<times> 's) \<Rightarrow> 's \<Rightarrow> jsval api_response \<times> 's" where
  "GetLoginLog api s = api ''auth/v1/login_log'' GET s"

definition Logout ::
  "(string \<Rightarrow> request_init \<Rightarrow> 's \<Rightarrow> string api_response \<times> 's) \<Rightarrow> 's \<Rightarrow> string api_response \<times> 's" where
  "Logout api s = api ''auth/v1/logout'' GET s"

definition InitializeNewKey ::
  "(string \<Rightarrow> request_init \<Rightarrow> 's \<Rightarrow> auth_options api_response \<times> 's) \<Rightarrow> string \<Rightarrow> 's
     \<Rightarrow> auth_options api_response \<times> 's" where
  "InitializeNewKey api emailCode s =
     (if trim emailCode = [] then (validationErrorResponse ''Email code must be not empty'', s)
      else api (''auth/v1/register_options'' @ (if emailCode \<noteq> [] then ''?code='' @ emailCode else [])) GET s)"

definition CreateUserKey ::
  "(string \<Rightarrow> request_init \<Rightarrow> ('w, 'z) client_scheme \<Rightarrow> string api_response \<times> ('w, 'z) client_scheme)
     \<Rightarrow> ('w, 'k) platform \<Rightarrow> string \<Rightarrow> auth_options \<Rightarrow> ('w, 'z) client_scheme
     \<Rightarrow> string api_response \<times> ('w, 'z) client_scheme" where
  "CreateUserKey api P otp options s =
     (if trim otp = [] \<and> length otp \<noteq> 6 then (validationErrorResponse ''OTP must be not empty'', s)
      else
        let challengeBuf = base64ToUint8Array P (fido2_challenge (fido2_options options));
            (randomText, w1) = getRandomText P (world s);
            passKey = genSha256 P randomText;
            (ks, w2) = generateKeys P passKey challengeBuf w1;
            data = \<lparr>li_challenge_id = challenge_id options, li_credential = None,
                    li_code = Some (trim otp), li_public_key = public_key ks,
                    li_signature = signature ks\<rparr>;
            (response, s1) =
              api ''auth/v1/register_key''
                \<lparr>init_method = ''POST'', init_credentials = None, init_body = Some data, init_headers = Map.empty\<rparr>
                (s\<lparr>world := w2\<rparr>)
        in if truthy (result response) \<and> result response \<noteq> Some ''Failure'' then
             (\<lparr>result = Some passKey, error = None, headers = None\<rparr>, s1)
           else (response, s1))"

definition getMessageFromEvent ::
  "('w, 'k) platform \<Rightarrow> jsval \<Rightarrow> ('w, 'z) client_scheme \<Rightarrow> jsval \<times> ('w, 'z) client_scheme" where
  "getMessageFromEvent P msg s =
     (let s1 = s\<lparr>console := console s @ [ConsoleLog [JStr ''Message received:'', msg]]\<rparr>
      in case msg of
           JStr m \<Rightarrow>
             (case JSON_parse P m of
                Inl e \<Rightarrow> (JNull, s1\<lparr>console := console s1 @ [ConsoleError ''Error parsing message:'']\<rparr>)
              | Inr v \<Rightarrow> (v, s1))
         | _ \<Rightarrow> (JUndefined, s1\<lparr>console := console s1 @ [ConsoleLog [msg]]\<rparr>))"

text \<open>
  The callback \<open>Subscribe\<close> installs as \<open>esLink.onmessage\<close>: the consumer
  \<open>handleMessage\<close> is given what \<open>getMessageFromEvent\<close> returns for \<open>event.data\<close>. The
  consumer may throw (\<open>Some\<close>).
\<close>

definition onmessage ::
  "('w, 'k) platform \<Rightarrow> (jsval \<Rightarrow> ('w, 'z) client_scheme \<Rightarrow> exn option \<times> ('w, 'z) client_scheme)
     \<Rightarrow> jsval \<Rightarrow> ('w, 'z) client_scheme \<Rightarrow> exn option \<times> ('w, 'z) client_scheme" where
  "onmessage P handleMessage data s =
     (let (msg, s1) = getMessageFromEvent P data s in handleMessage msg s1)"

section \<open>The client without reconnect, continued\<close>

definition ResetPassword2 ::
  "('w, 'k) platform \<Rightarrow> string \<Rightarrow> ('w, 'z) client_scheme
     \<Rightarrow> string api_response \<times> ('w, 'z) client_scheme" where
  "ResetPassword2 P phone s =
     (if \<not> truthy (formatAsNumber P (trim phone)) then
        (validationErrorResponse ''Phone must be not empty'', s)
      else
        let (guid, s1) = getDeviceGuid2 P s
        in ApiRequest2 (fetch_string P) (''auth/v1/reset_password?phone='' @ phone)
             \<lparr>init_method = ''GET'', init_credentials = None, init_body = None,
              init_headers = [''resolution'' \<mapsto> ''1x1'', ''device_guid'' \<mapsto> guid]\<rparr> s1)"

definition Subscribe2 ::
  "('w, 'k) platform \<Rightarrow> ('w, 'z) client_scheme \<Rightarrow> bool \<times> ('w, 'z) client_scheme" where
  "Subscribe2 P s =
     (if isConnectedES s \<or> \<not> truthy (sessionId s) then (False, s)
      else
        case new_EventSource P (BaseUrl s @ ''auth/v1/Subscribe'') (world s) of
          (Inl e, w) \<Rightarrow>
            (False, s\<lparr>world := w, console := console s @ [ConsoleError ''EventSource error:'']\<rparr>)
        | (Inr es, w) \<Rightarrow> (True, s\<lparr>world := w, esLink := Some es\<rparr>))"

definition Unsubscribe2 ::
  "('w, 'k) platform \<Rightarrow> ('w, 'z) client_scheme \<Rightarrow> (exn + bool) \<times> ('w, 'z) client_scheme" where
  "Unsubscribe2 P s =
     (if \<not> isConnectedES s then (Inr False, s)
      else
        case esLink s of
          None \<Rightarrow> (Inl TypeError, s)
        | Some es \<Rightarrow> (Inr True, s\<lparr>world := EventSource_close P es (world s)\<rparr>))"

fun Subscribe2_times ::
  "('w, 'k) platform \<Rightarrow> nat \<Rightarrow> ('w, 'z) client_scheme \<Rightarrow> bool list \<times> ('w, 'z) client_scheme" where
  "Subscribe2_times P 0 s = ([], s)"
| "Subscribe2_times P (Suc n) s =
     (let (b, s1) = Subscribe2 P s;
          (bs, s2) = Subscribe2_times P n s1
      in (b # bs, s2))"

text \<open>
  The calls a program can make on a client, and a client after a sequence of them.
  \<open>Deliver\<close> is a push message reaching \<open>onmessage\<close> with the default consumer;
  \<open>Outside\<close> is any change of the world between two calls.
\<close>

datatype 'w call =
    CallSignInUserKey string
  | CallGetInfo
  | CallGetLoginLog
  | CallResetPassword string
  | CallInitializeNewKey string
  | CallCreateUserKey string auth_options
  | CallSubscribe
  | CallUnsubscribe
  | CallLogout
  | Deliver jsval
  | Outside "'w \<Rightarrow> 'w"

fun do_call2 :: "('w, 'k) platform \<Rightarrow> 'w call \<Rightarrow> 'w client \<Rightarrow> 'w client" where
  "do_call2 P (CallSignInUserKey k) s = snd (SignInUserKey2 P k s)"
| "do_call2 P CallGetInfo s = snd (GetInfo (ApiRequest2 (fetch_unknown P)) s)"
| "do_call2 P CallGetLoginLog s = snd (GetLoginLog (ApiRequest2 (fetch_unknown P)) s)"
| "do_call2 P (CallResetPassword ph) s = snd (ResetPassword2 P ph s)"
| "do_call2 P (CallInitializeNewKey c) s = snd (InitializeNewKey (ApiRequest2 (fetch_AuthOptions P)) c s)"
| "do_call2 P (CallCreateUserKey otp opts) s = snd (CreateUserKey (ApiRequest2 (fetch_string P)) P otp opts s)"
| "do_call2 P CallSubscribe s = snd (Subscribe2 P s)"
| "do_call2 P CallUnsubscribe s = snd (Unsubscribe2 P s)"
| "do_call2 P CallLogout s = snd (Logout (ApiRequest2 (fetch_string P)) s)"
| "do_call2 P (Deliver m) s = snd (onmessage P (\<lambda>v t. (None, t)) m s)"
| "do_call2 P (Outside f) s = s\<lparr>world := f (world s)\<rparr>"

definition run2 :: "('w, 'k) platform \<Rightarrow> 'w call list \<Rightarrow> 'w client \<Rightarrow> 'w client" where
  "run2 P cs s = foldl (\<lambda>t c. do_call2 P c t) s cs"

section \<open>The client with reconnect (\<open>part_000\<close>, lines 109-508)\<close>

text \<open>
  The class adds the stored user key and the flag \<open>isConnected\<close>. \<open>background\<close> holds
  the calls of \<open>Connect\<close> that were started and that nothing awaits, each with the value
  its pending \<open>fetch\<close> settles to.
\<close>

record 'w client1 = "'w client" +
  userKey :: string
  isConnected :: bool
  background :: "auth_options settled list"

definition AuthProxyClient1 :: "string \<Rightarrow> string \<Rightarrow> 'w \<Rightarrow> 'w client1" where
  "AuthProxyClient1 key baseUrl w =
     \<lparr>BaseUrl = baseUrl, esLink = None, isConnectedES = False, sessionId = None,
      deviceGuid = None, world = w, sent = [], console = [],
      userKey = key, isConnected = False, background = []\<rparr>"

text \<open>
  The statement \<open>this.Connect(true);\<close> of \<open>ApiRequest\<close>, which has no \<open>await\<close>. The call
  runs \<open>Connect\<close>, \<open>SignInUserKey(this.userKey)\<close> and the inner \<open>ApiRequest\<close> up to their
  first \<open>await\<close>: for a blank user key nothing is sent; otherwise \<open>fetch\<close> is called for
  \<open>auth/v1/login_options\<close> and the rest of the call stays pending.
\<close>

definition Connect_unawaited ::
  "('w, 'k) platform \<Rightarrow> ('w, 'z) client1_scheme \<Rightarrow> ('w, 'z) client1_scheme" where
  "Connect_unawaited P s =
     (if trim (userKey s) = [] then s
      else
        let (request, s1) = call_fetch (fetch_AuthOptions P) ''auth/v1/login_options'' GET s
        in s1\<lparr>background := background s1 @ [request]\<rparr>)"

text \<open>
  \<open>request\<close> is the promise of the one call of \<open>fetch\<close>; \<open>response\<close> is what \<open>await request\<close>
  gives, also the second time.
\<close>

definition ApiRequest1 ::
  "('w, 'k) platform \<Rightarrow> (request \<Rightarrow> 'w \<Rightarrow> 'a settled \<times> 'w) \<Rightarrow> string \<Rightarrow> request_init
     \<Rightarrow> ('w, 'z) client1_scheme \<Rightarrow> 'a api_response \<times> ('w, 'z) client1_scheme" where
  "ApiRequest1 P fetch u init s =
     (let (request, s1) = call_fetch fetch u init s;
          response = request
      in case response of
           Rejected m \<Rightarrow> (response_of response, s1)
         | Resolved r \<Rightarrow>
             if status r = 401 then
               (let s2 = Connect_unawaited P (s1\<lparr>isConnected := False\<rparr>);
                    response = request
                in (response_of response, s2))
             else (response_of response, s1))"

definition empty_config :: config_data where
  "empty_config = \<lparr>cfg_deviceGuid = None, cfg_rest = JObj []\<rparr>"

definition getDeviceGuid1 ::
  "('w, 'k) platform \<Rightarrow> ('w, 'z) client_scheme \<Rightarrow> string \<times> ('w, 'z) client_scheme" where
  "getDeviceGuid1 P s =
     (if truthy (deviceGuid s) then (the (deviceGuid s), s)
      else
        let (ex, w1) = fs_existsSync P (world s);
            (rd, w2) = (if ex then read_config P w1 else (Inr empty_config, w1));
            configData = (case rd of Inl e \<Rightarrow> empty_config | Inr c \<Rightarrow> c);
            s1 = (case rd of
                    Inl e \<Rightarrow>
                      s\<lparr>world := w2,
                        console := console s @ [ConsoleError ''Error reading authProxyConfig.json:'']\<rparr>
                  | Inr c \<Rightarrow> s\<lparr>world := w2\<rparr>)
        in if truthy (cfg_deviceGuid configData) then
             (the (cfg_deviceGuid configData), s1\<lparr>deviceGuid := cfg_deviceGuid configData\<rparr>)
           else
             let (rnd, w3) = getRandomUint8Array P (world s1);
                 g = uuidV4 P rnd;
                 s2 = s1\<lparr>deviceGuid := Some g, world := w3\<rparr>;
                 (wr, w4) = write_config P (configData\<lparr>cfg_deviceGuid := Some g\<rparr>) (world s2)
             in (g,
                 case wr of
                   None \<Rightarrow> s2\<lparr>world := w4\<rparr>
                 | Some e \<Rightarrow>
                     s2\<lparr>world := w4,
                        console := console s2
                          @ [ConsoleError ''Error trying create authProxyConfig.json file:'']\<rparr>))"

definition SignInUserKey1 ::
  "('w, 'k) platform \<Rightarrow> string \<Rightarrow> ('w, 'z) client1_scheme
     \<Rightarrow> (exn + string api_response) \<times> ('w, 'z) client1_scheme" where
  "SignInUserKey1 P key s =
     (if trim key = [] then (Inr (validationErrorResponse ''User key must be not empty''), s)
      else
        let (loginOptionResponse, s1) =
              ApiRequest1 P (fetch_AuthOptions P) ''auth/v1/login_options'' GET s
        in case result loginOptionResponse of
             None \<Rightarrow> (Inr \<lparr>result = None, error = error loginOptionResponse, headers = None\<rparr>, s1)
           | Some authOptions \<Rightarrow>
               let challengeBuf = base64ToUint8Array P (challenge authOptions);
                   (ks, w2) = generateKeys P key challengeBuf (world s1);
                   s2 = s1\<lparr>world := w2\<rparr>;
                   data = \<lparr>li_challenge_id = challenge_id authOptions, li_credential = Some JNull,
                           li_code = None, li_public_key = public_key ks,
                           li_signature = signature ks\<rparr>;
                   (guid, s3) = getDeviceGuid1 P s2;
                   (loginResponse, s4) =
                     ApiRequest1 P (fetch_string P) ''auth/v1/login''
                       \<lparr>init_method = ''POST'', init_credentials = None, init_body = Some data,
                        init_headers = [''resolution'' \<mapsto> ''console'', ''device_guid'' \<mapsto> guid,
                          ''User-Agent'' \<mapsto> ''AuthProxy SDK v.'' @ version P]\<rparr> s3
               in if truthy (result loginResponse) \<and> result loginResponse \<noteq> Some ''Failure'' then
                    (case cookie_sid loginResponse of
                       Inl e \<Rightarrow> (Inl e, s4)
                     | Inr sid \<Rightarrow> (Inr loginResponse, s4\<lparr>sessionId := Some sid, isConnected := True\<rparr>))
                  else (Inr loginResponse, s4))"

definition Connect1 ::
  "('w, 'k) platform \<Rightarrow> bool \<Rightarrow> ('w, 'z) client1_scheme \<Rightarrow> (exn + bool) \<times> ('w, 'z) client1_scheme" where
  "Connect1 P force s =
     (if \<not> force \<and> isConnected s then (Inr (isConnected s), s)
      else
        case SignInUserKey1 P (userKey s) s of
          (Inl e, s1) \<Rightarrow> (Inl e, s1)
        | (Inr response, s1) \<Rightarrow>
            (Inr (error response = None \<and> result response \<noteq> Some ''Failure''), s1))"

definition Subscribe1 ::
  "('w, 'k) platform \<Rightarrow> ('w, 'z) client_scheme \<Rightarrow> bool \<times> ('w, 'z) client_scheme" where
  "Subscribe1 P s =
     (if isConnectedES s \<or> \<not> truthy (sessionId s) then (False, s)
      else
        case new_EventSource P (BaseUrl s @ ''auth/v1/Subscribe'') (world s) of
          (Inl e, w) \<Rightarrow>
            (False, s\<lparr>world := w, console := console s @ [ConsoleError ''EventSource error:'']\<rparr>)
        | (Inr es, w) \<Rightarrow> (True, s\<lparr>world := w, esLink := Some es, isConnectedES := True\<rparr>))"

section \<open>The first SDK (\<open>src/SDK/JavaScript/src\<close>)\<close>

text \<open>
  \<open>sid\<close> is the module variable of \<open>api/api-request/index.ts\<close>, written by
  \<open>setFetchSessionId\<close>; \<open>sessionId3\<close> is the field of the class.
\<close>

record 'w client3 =
  sessionId3 :: "string option"
  sid :: "string option"
  world3 :: 'w
  sent3 :: "request list"

definition AuthProxyClient3 :: "'w \<Rightarrow> 'w client3" where
  "AuthProxyClient3 w = \<lparr>sessionId3 = None, sid = None, world3 = w, sent3 = []\<rparr>"

definition setFetchSessionId :: "string \<Rightarrow> 'w client3 \<Rightarrow> 'w client3" where
  "setFetchSessionId v s = s\<lparr>sid := Some v\<rparr>"

text \<open>
  \<open>api/api-request/index.ts\<close>: the first argument is \<open>process.env['AUTH_API_URL']\<close>, which
  prints as \<open>undefined\<close> when the variable is not set.
\<close>

definition ApiRequest3 ::
  "string option \<Rightarrow> (request \<Rightarrow> 'w \<Rightarrow> 'a settled \<times> 'w) \<Rightarrow> string \<Rightarrow> request_init \<Rightarrow> 'w client3
     \<Rightarrow> 'a api_response \<times> 'w client3" where
  "ApiRequest3 apiUrl fetch u init s =
     (let req = \<lparr>url = (case apiUrl of None \<Rightarrow> ''undefined'' | Some a \<Rightarrow> a) @ u,
                 http_method = init_method init,
                 credentials = (case init_credentials init of None \<Rightarrow> ''same-origin'' | Some c \<Rightarrow> c),
                 req_headers = init_headers init ++ cookie_header (sid s),
                 req_body = init_body init\<rparr>;
          (response, w) = fetch req (world3 s)
      in (response_of response, s\<lparr>world3 := w, sent3 := sent3 s @ [req]\<rparr>))"

text \<open>\<open>api/index.ts\<close>\<close>

definition apiLoginOptions ::
  "('w, 'k) platform \<Rightarrow> 'w client3 \<Rightarrow> auth_options api_response \<times> 'w client3" where
  "apiLoginOptions P s =
     ApiRequest3 (AUTH_API_URL P) (fetch_AuthOptions P) ''auth/v1/login_options''
       \<lparr>init_method = ''GET'', init_credentials = Some ''include'', init_body = None,
        init_headers = [''Accept'' \<mapsto> ''application/json'']\<rparr> s"

definition apiLogin ::
  "('w, 'k) platform \<Rightarrow> login_info \<Rightarrow> 'w client3 \<Rightarrow> string api_response \<times> 'w client3" where
  "apiLogin P data s =
     ApiRequest3 (AUTH_API_URL P) (fetch_string P) ''auth/v1/login''
       \<lparr>init_method = ''POST'', init_credentials = Some ''include'', init_body = Some data,
        init_headers = [''Accept'' \<mapsto> ''application/json'',
          ''Content-Type'' \<mapsto> ''application/json'', ''device_guid'' \<mapsto> ''null'']\<rparr> s"

definition RegisterKey ::
  "('w, 'k) platform \<Rightarrow> login_info \<Rightarrow> 'w client3 \<Rightarrow> string api_response \<times> 'w client3" where
  "RegisterKey P data s =
     ApiRequest3 (AUTH_API_URL P) (fetch_string P) ''auth/v1/register_key''
       \<lparr>init_method = ''POST'', init_credentials = Some ''include'', init_body = Some data,
        init_headers = [''Accept'' \<mapsto> ''application/json'',
          ''Content-Type'' \<mapsto> ''application/json'']\<rparr> s"

text \<open>\<open>index.ts\<close>: \<open>SignInUserKey\<close> returns \<open>string | null\<close>.\<close>

definition SignInUserKey3 ::
  "('w, 'k) platform \<Rightarrow> string \<Rightarrow> 'w client3 \<Rightarrow> (exn + string option) \<times> 'w client3" where
  "SignInUserKey3 P key s =
     (if trim key = [] then (Inr None, s)
      else
        let (loginOptionResponse, s1) = apiLoginOptions P s
        in case result loginOptionResponse of
             None \<Rightarrow> (Inr None, s1)
           | Some authOptions \<Rightarrow>
               let challengeBuf = base64ToUint8Array P (challenge authOptions);
                   (ks, w2) = generateKeys P key challengeBuf (world3 s1);
                   s2 = s1\<lparr>world3 := w2\<rparr>;
                   data = \<lparr>li_challenge_id = challenge_id authOptions, li_credential = Some JNull,
                           li_code = None, li_public_key = public_key ks,
                           li_signature = signature ks\<rparr>;
                   (loginResponse, s3) = apiLogin P data s2
               in if truthy (result loginResponse) \<and> result loginResponse \<noteq> Some ''Failure'' then
                    (case cookie_sid loginResponse of
                       Inl e \<Rightarrow> (Inl e, s3)
                     | Inr v \<Rightarrow>
                         (Inr (result loginResponse),
                          setFetchSessionId v (s3\<lparr>sessionId3 := Some v\<rparr>)))
                  else (Inr None, s3))"

text \<open>
  \<open>CreateUserKey\<close> returns \<open>string | ErrorObject\<close>: the key, \<open>response.error\<close> (which may
  be absent), or \<open>null\<close> from the validation.
\<close>

datatype key_or_error =
    ReturnedKey string
  | ReturnedError "error_object option"
  | ReturnedNull

definition CreateUserKey3 ::
  "('w, 'k) platform \<Rightarrow> string \<Rightarrow> auth_options \<Rightarrow> 'w client3 \<Rightarrow> key_or_error \<times> 'w client3" where
  "CreateUserKey3 P otp options s =
     (if trim otp = [] \<and> length otp \<noteq> 6 then (ReturnedNull, s)
      else
        let challengeBuf = base64ToUint8Array P (fido2_challenge (fido2_options options));
            (randomText, w1) = getRandomText P (world3 s);
            passKey = genSha256 P randomText;
            (ks, w2) = generateKeys P passKey challengeBuf w1;
            data = \<lparr>li_challenge_id = challenge_id options, li_credential = None,
                    li_code = Some (trim otp), li_public_key = public_key ks,
                    li_signature = signature ks\<rparr>;
            (response, s1) = RegisterKey P data (s\<lparr>world3 := w2\<rparr>)
        in if truthy (result response) \<and> result response \<noteq> Some ''Failure'' then
             (ReturnedKey passKey, s1)
           else (ReturnedError (error response), s1))"

section \<open>Predicates of the properties\<close>

text \<open>
  The outcome of \<open>SignInUserKey\<close> is a success when it returns a response whose
  \<open>result\<close> is truthy and is not \<open>Failure\<close>; a thrown exception is not a success.
\<close>

definition login_succeeded :: "exn + string api_response \<Rightarrow> bool" where
  "login_succeeded r =
     (case r of Inl e \<Rightarrow> False | Inr v \<Rightarrow> truthy (result v) \<and> result v \<noteq> Some ''Failure'')"

text \<open>
  The three calls into \<open>elliptic\<close> give the same value in every world: the property of
  Ed25519 signing that the library is relied on for.
\<close>

definition deterministic_library :: "('w, 'k) platform \<Rightarrow> bool" where
  "deterministic_library P =
     ((\<forall>secret w w'. fst (keyFromSecret P secret w) = fst (keyFromSecret P secret w'))
      \<and> (\<forall>key w w'. fst (getPublic P key w) = fst (getPublic P key w'))
      \<and> (\<forall>key m w w'. fst (sign P key m w) = fst (sign P key m w')))"

text \<open>The constructor of \<open>EventSource\<close> does not throw.\<close>

definition always_opens :: "('w, 'k) platform \<Rightarrow> bool" where
  "always_opens P = (\<forall>u w. \<exists>es. fst (new_EventSource P u w) = Inr es)"

section \<open>A scripted platform for concrete runs\<close>

text \<open>
  A small platform on which the definitions can be run: the server answers
  \<open>auth/v1/login_options\<close> and \<open>auth/v1/register_options\<close> with a fixed bundle and every
  other path as the two scripts say; the world counts the requests served, the
  \<open>EventSource\<close> objects constructed and the random values drawn. The stand-ins for
  the cryptography and the encoders are placeholders, not the real functions.
\<close>

record demo_world =
  served :: nat
  opened :: nat
  drawn :: nat

definition demo_options :: auth_options where
  "demo_options =
     \<lparr>challenge = ''AQID'', challenge_id = ''c-1'', fido2_options = \<lparr>fido2_challenge = ''AQID''\<rparr>\<rparr>"

definition reply :: "nat \<Rightarrow> string \<Rightarrow> (string \<times> string) list \<Rightarrow> 'a json_body \<Rightarrow> 'a settled" where
  "reply st txt hs b = Resolved \<lparr>status = st, statusText = txt, resp_headers = hs, body = b\<rparr>"

definition demo_platform ::
  "(request \<Rightarrow> auth_options settled) \<Rightarrow> (request \<Rightarrow> string settled) \<Rightarrow> (request \<Rightarrow> jsval settled)
     \<Rightarrow> (demo_world, string) platform" where
  "demo_platform options_script string_script unknown_script =
     \<lparr>fetch_AuthOptions = (\<lambda>req w. (options_script req, w\<lparr>served := Suc (served w)\<rparr>)),
      fetch_string = (\<lambda>req w. (string_script req, w\<lparr>served := Suc (served w)\<rparr>)),
      fetch_unknown = (\<lambda>req w. (unknown_script req, w\<lparr>served := Suc (served w)\<rparr>)),
      keyFromSecret = (\<lambda>secret w. (secret, w)),
      getPublic = (\<lambda>key w. (map of_char key, w)),
      sign = (\<lambda>key m w. (m @ map of_char key, w)),
      coerceToBase64Url = map (\<lambda>b. char_of (unat b)),
      Buffer_from_base64 = map of_char,
      getRandomText = (\<lambda>w. (''random-'' @ string_of_nat (drawn w), w\<lparr>drawn := Suc (drawn w)\<rparr>)),
      genSha256 = (\<lambda>t. ''sha256:'' @ t),
      formatAsNumber = (\<lambda>t. if t \<noteq> [] \<and> list_all (\<lambda>c. c \<in> set ''0123456789'') t then Some t else None),
      JSON_parse = (\<lambda>t. if t = ''null'' then Inr JNull
                        else if t = ''true'' then Inr (JBool True)
                        else if t = ''{}'' then Inr (JObj [])
                        else Inl SyntaxError),
      new_EventSource = (\<lambda>u w. (Inr (opened w), w\<lparr>opened := Suc (opened w)\<rparr>)),
      EventSource_close = (\<lambda>es w. w),
      randomUUID = (\<lambda>w. (''uuid-'' @ string_of_nat (drawn w), w\<lparr>drawn := Suc (drawn w)\<rparr>)),
      fs_existsSync = (\<lambda>w. (False, w)),
      read_config = (\<lambda>w. (Inr empty_config, w)),
      getRandomUint8Array = (\<lambda>w. (replicate 16 0, w\<lparr>drawn := Suc (drawn w)\<rparr>)),
      uuidV4 = (\<lambda>b. ''00000000-0000-4000-8000-000000000000''),
      write_config = (\<lambda>c w. (None, w)),
      version = ''1.0.0'',
      AUTH_API_URL = Some ''https://test-project.api/''\<rparr>"

definition options_ok :: "request \<Rightarrow> auth_options settled" where
  "options_ok req = reply 200 ''OK'' [] (JsonBody (Some demo_options) None)"

definition not_found :: "request \<Rightarrow> 'a settled" where
  "not_found req = reply 404 ''Not Found'' [] (InvalidJson None)"

definition answer :: "string \<Rightarrow> 'a settled \<Rightarrow> (request \<Rightarrow> 'a settled) \<Rightarrow> request \<Rightarrow> 'a settled" where
  "answer path r other req = (if url req = ''https://test-project.api/'' @ path then r else other req)"

definition success_body :: "string json_body" where
  "success_body = JsonBody (Some ''Success'') None"

definition failure_body :: "string json_body" where
  "failure_body = JsonBody (Some ''Failure'') None"

definition world0 :: demo_world where
  "world0 = \<lparr>served = 0, opened = 0, drawn = 0\<rparr>"

definition demo_client1 :: "demo_world client1" where
  "demo_client1 = AuthProxyClient1 ''key'' ''https://test-project.api/'' world0"

definition demo_client2 :: "demo_world client" where
  "demo_client2 = AuthProxyClient2 ''https://test-project.api/'' world0"

definition demo_client3 :: "demo_world client3" where
  "demo_client3 = AuthProxyClient3 world0"

definition login_script :: "(string \<times> string) list \<Rightarrow> string json_body \<Rightarrow> request \<Rightarrow> string settled" where
  "login_script hs b = answer ''auth/v1/login'' (reply 200 ''OK'' hs b) not_found"

definition register_script :: "string json_body \<Rightarrow> request \<Rightarrow> string settled" where
  "register_script b = answer ''auth/v1/register_key'' (reply 200 ''OK'' [] b) not_found"

text \<open>
  \<open>auth/v1/get_info\<close> is served to the session \<open>abc123\<close> only; any other cookie, or
  none, gets the status 401.
\<close>

definition info_script :: "request \<Rightarrow> jsval settled" where
  "info_script req =
     (if url req = ''https://test-project.api/auth/v1/get_info'' then
        (if req_headers req ''Cookie'' = Some ''sid=abc123''
         then reply 200 ''OK'' [] (JsonBody (Some (JObj [(''name'', JStr ''demo'')])) None)
         else reply 401 ''Unauthorized'' [] (InvalidJson None))
      else not_found req)"

text \<open>A server on which the stored key signs in and receives the session \<open>abc123\<close>.\<close>

definition demo_server :: "(demo_world, string) platform" where
  "demo_server =
     demo_platform options_ok
       (login_script [(''set-cookie'', ''sid=abc123; Path=/'')] success_body) info_script"

text \<open>A client whose session \<open>old\<close> has expired on the server.\<close>

definition expired_client1 :: "demo_world client1" where
  "expired_client1 = demo_client1\<lparr>sessionId := Some ''old'', isConnected := True\<rparr>"

text \<open>A consumer that writes what it is given to the console.\<close>

definition recording_consumer ::
  "jsval \<Rightarrow> ('w, 'z) client_scheme \<Rightarrow> exn option \<times> ('w, 'z) client_scheme" where
  "recording_consumer v s = (None, s\<lparr>console := console s @ [ConsoleLog [v]]\<rparr>)"

section \<open>Properties\<close>

lemma string_of_nat_values:
  "string_of_nat 0 = ''0''" "string_of_nat 401 = ''401''" "string_of_nat 404 = ''404''"
  by (simp_all add: string_of_nat.simps digit_def)

subsection \<open>What the transport leaves alone\<close>

lemma call_fetch_keeps:
  assumes "call_fetch f u i s = (p, s')"
  shows "sessionId s' = sessionId s" and "isConnectedES s' = isConnectedES s"
  using assms by (auto simp: call_fetch_def Let_def split: prod.splits)

lemma ApiRequest2_keeps:
  assumes "ApiRequest2 f u i s = (r, s')"
  shows "sessionId s' = sessionId s" and "isConnectedES s' = isConnectedES s"
  using assms by (auto simp: ApiRequest2_def Let_def split: prod.splits dest: call_fetch_keeps)

lemma Connect_unawaited_keeps:
  "sessionId (Connect_unawaited P s) = sessionId s"
  "isConnectedES (Connect_unawaited P s) = isConnectedES s"
  by (auto simp: Connect_unawaited_def Let_def split: prod.splits dest: call_fetch_keeps)

lemma ApiRequest1_keeps:
  assumes "ApiRequest1 P f u i s = (r, s')"
  shows "sessionId s' = sessionId s" and "isConnectedES s' = isConnectedES s"
  using assms
  by (auto simp: ApiRequest1_def Let_def Connect_unawaited_keeps
      split: prod.splits settled.splits if_splits dest: call_fetch_keeps)

lemma getDeviceGuid2_keeps:
  assumes "getDeviceGuid2 P s = (g, s')"
  shows "sessionId s' = sessionId s" and "isConnectedES s' = isConnectedES s"
  using assms by (auto simp: getDeviceGuid2_def Let_def split: prod.splits if_splits)

lemma getDeviceGuid1_keeps:
  assumes "getDeviceGuid1 P s = (g, s')"
  shows "sessionId s' = sessionId s" and "isConnectedES s' = isConnectedES s"
  using assms
  by (auto simp: getDeviceGuid1_def Let_def split: prod.splits if_splits sum.splits option.splits)

subsection \<open>Sign-in and the session store\<close>

lemma SignInUserKey2_failure:
  assumes "SignInUserKey2 P k s = (r, s')" and "\<not> login_succeeded r"
  shows "sessionId s' = sessionId s"
  using assms
  by (auto simp: SignInUserKey2_def login_succeeded_def Let_def
      split: prod.splits option.splits sum.splits if_splits
      dest!: ApiRequest2_keeps(1) getDeviceGuid2_keeps(1))

lemma SignInUserKey1_failure:
  assumes "SignInUserKey1 P k s = (r, s')" and "\<not> login_succeeded r"
  shows "sessionId s' = sessionId s"
  using assms
  by (auto simp: SignInUserKey1_def login_succeeded_def Let_def
      split: prod.splits option.splits sum.splits if_splits
      dest!: ApiRequest1_keeps(1) getDeviceGuid1_keeps(1))

text \<open>
  Claim C5. A transport error and a status outside 200-299 give a response without
  \<open>result\<close>. Whenever \<open>SignInUserKey\<close> does not end in a success - the challenge fetch
  gave no \<open>result\<close>, the login response has no \<open>result\<close> or the \<open>result\<close> \<open>Failure\<close>,
  or the call threw - the stored \<open>sessionId\<close> is the one from before the call, in both
  clients of \<open>part_000\<close>. In the client with reconnect this is the store when the call
  returns; a reconnect started by a 401 is still pending then.
\<close>

theorem SignInUserKey_failure_keeps_session:
  "result (response_of (Rejected m)) = None
   \<and> (\<not> ok r \<longrightarrow> result (response_of (Resolved r)) = None)
   \<and> (\<not> login_succeeded (fst (SignInUserKey1 P k s1)) \<longrightarrow>
      sessionId (snd (SignInUserKey1 P k s1)) = sessionId s1)
   \<and> (\<not> login_succeeded (fst (SignInUserKey2 P k s2)) \<longrightarrow>
      sessionId (snd (SignInUserKey2 P k s2)) = sessionId s2)"
proof -
  have "result (response_of (Rejected m)) = None"
    and "\<not> ok r \<longrightarrow> result (response_of (Resolved r)) = None"
    by (simp_all add: response_of_def)
  moreover have "\<not> login_succeeded (fst (SignInUserKey1 P k s1)) \<longrightarrow>
      sessionId (snd (SignInUserKey1 P k s1)) = sessionId s1"
    using SignInUserKey1_failure [of P k s1] by (metis prod.collapse)
  moreover have "\<not> login_succeeded (fst (SignInUserKey2 P k s2)) \<longrightarrow>
      sessionId (snd (SignInUserKey2 P k s2)) = sessionId s2"
    using SignInUserKey2_failure [of P k s2] by (metis prod.collapse)
  ultimately show ?thesis
    by blast
qed

theorem SignInUserKey_failure_keeps_session_witness:
  "\<not> ok \<lparr>status = 500, statusText = ''Internal Server Error'', resp_headers = [],
           body = InvalidJson None\<rparr>
   \<and> result (response_of (Resolved \<lparr>status = 500, statusText = ''Internal Server Error'',
           resp_headers = [], body = (InvalidJson None :: string json_body)\<rparr>)) = None
   \<and> \<not> login_succeeded (fst (SignInUserKey1
        (demo_platform options_ok (login_script [] failure_body) not_found) ''key'' demo_client1))
   \<and> sessionId (snd (SignInUserKey1
        (demo_platform options_ok (login_script [] failure_body) not_found) ''key'' demo_client1)) = sessionId demo_client1
   \<and> \<not> login_succeeded (fst (SignInUserKey2
        (demo_platform options_ok (login_script [] failure_body) not_found) ''key'' demo_client2))
   \<and> sessionId (snd (SignInUserKey2
        (demo_platform options_ok (login_script [] failure_body) not_found) ''key'' demo_client2)) = sessionId demo_client2"
  using SignInUserKey_failure_keeps_session
    [of None "\<lparr>status = 500, statusText = ''Internal Server Error'', resp_headers = [],
           body = (InvalidJson None :: string json_body)\<rparr>"
       "demo_platform options_ok (login_script [] failure_body) not_found" "''key''"
       demo_client1 demo_client2]
  by (simp add: SignInUserKey1_def SignInUserKey2_def ApiRequest1_def ApiRequest2_def
      getDeviceGuid1_def getDeviceGuid2_def empty_config_def login_succeeded_def
      call_fetch_def build_request_def response_of_def ok_def collect_headers_def
      cookie_header_def truthy_def defaultHeaders_def cookie_sid_def trim_def isWhiteSpace_def GET_def
      generateKeys_def base64ToUint8Array_def
      demo_platform_def options_ok_def not_found_def answer_def reply_def world0_def
      demo_options_def login_script_def failure_body_def demo_client1_def demo_client2_def
      AuthProxyClient1_def AuthProxyClient2_def Let_def)

text \<open>
  Claim C6. For a user key whose trimmed value is empty, \<open>SignInUserKey\<close> returns at
  once: the validation error \<open>User key must be not empty\<close> in both clients of
  \<open>part_000\<close>, \<open>null\<close> in the first SDK. The client returned is the client given, so
  nothing was handed to \<open>fetch\<close> (\<open>sent\<close>) and the world is untouched.
\<close>

theorem SignInUserKey_blank_no_network_call:
  assumes "trim key = []"
  shows "SignInUserKey1 P key s1 = (Inr (validationErrorResponse ''User key must be not empty''), s1)
    \<and> SignInUserKey2 P key s2 = (Inr (validationErrorResponse ''User key must be not empty''), s2)
    \<and> SignInUserKey3 P key s3 = (Inr None, s3)"
  using assms by (simp add: SignInUserKey1_def SignInUserKey2_def SignInUserKey3_def)

theorem SignInUserKey_blank_no_network_call_witness:
  "trim ''   '' = []
   \<and> SignInUserKey1 (demo_platform options_ok not_found not_found) ''   '' demo_client1
       = (Inr (validationErrorResponse ''User key must be not empty''), demo_client1)
   \<and> SignInUserKey2 (demo_platform options_ok not_found not_found) ''   '' demo_client2
       = (Inr (validationErrorResponse ''User key must be not empty''), demo_client2)
   \<and> SignInUserKey3 (demo_platform options_ok not_found not_found) ''   '' demo_client3
       = (Inr None, demo_client3)"
proof -
  have blank: "trim ''   '' = []"
    by (simp add: trim_def isWhiteSpace_def)
  show ?thesis
    using blank SignInUserKey_blank_no_network_call [OF blank] by simp
qed

subsection \<open>The reconnect on 401\<close>

text \<open>
  Whatever the status, \<open>ApiRequest\<close> of the client with reconnect returns the response
  to the one request it gave to \<open>fetch\<close>; after a 401 the only further request is the
  \<open>auth/v1/login_options\<close> of the reconnect it started, sent with the session it had.
\<close>

lemma ApiRequest1_first_response:
  "fst (ApiRequest1 P f u i s) = response_of (fst (f (build_request s u i) (world s)))"
  by (simp add: ApiRequest1_def call_fetch_def Let_def split: prod.splits settled.splits)

lemma ApiRequest1_sent:
  "sent (snd (ApiRequest1 P f u i s)) =
     sent s @ [build_request s u i] @
       (case fst (f (build_request s u i) (world s)) of
          Rejected m \<Rightarrow> []
        | Resolved r \<Rightarrow>
            if status r = 401 \<and> trim (userKey s) \<noteq> []
            then [build_request s ''auth/v1/login_options'' GET] else [])"
  by (simp add: ApiRequest1_def call_fetch_def Connect_unawaited_def build_request_def Let_def
      split: prod.splits settled.splits)

text \<open>
  Claim C1, at a client whose session \<open>old\<close> has expired, on a server that answers
  \<open>auth/v1/get_info\<close> with 401 for that session and would serve it to a fresh one, the
  stored key being valid. \<open>GetInfo\<close> returns the error \<open>Status: 401. Unauthorized\<close>; the
  requests sent are the one \<open>get_info\<close> and the \<open>login_options\<close> of the reconnect, which
  is still pending and has not changed the session; \<open>get_info\<close> is not sent again. The
  same call after an awaited \<open>Connect(true)\<close> returns the server's information.
\<close>

theorem ApiRequest1_401_not_reissued:
  "error (fst (GetInfo (ApiRequest1 demo_server (fetch_unknown demo_server)) expired_client1))
     = Some \<lparr>code = None, message = Some ''Status: 401. Unauthorized''\<rparr>
   \<and> result (fst (GetInfo (ApiRequest1 demo_server (fetch_unknown demo_server)) expired_client1)) = None
   \<and> map url (sent (snd (GetInfo (ApiRequest1 demo_server (fetch_unknown demo_server)) expired_client1)))
     = [''https://test-project.api/auth/v1/get_info'', ''https://test-project.api/auth/v1/login_options'']
   \<and> length (background (snd (GetInfo (ApiRequest1 demo_server (fetch_unknown demo_server)) expired_client1))) = 1
   \<and> sessionId (snd (GetInfo (ApiRequest1 demo_server (fetch_unknown demo_server)) expired_client1)) = Some ''old''
   \<and> result (fst (GetInfo (ApiRequest1 demo_server (fetch_unknown demo_server))
        (snd (Connect1 demo_server True expired_client1)))) = Some (JObj [(''name'', JStr ''demo'')])"
proof -
  let ?call = "GetInfo (ApiRequest1 demo_server (fetch_unknown demo_server))"
  have answered: "fst (?call expired_client1)
      = response_of (reply 401 ''Unauthorized'' [] (InvalidJson None))"
    by (simp add: GetInfo_def ApiRequest1_first_response build_request_def cookie_header_def
        truthy_def defaultHeaders_def GET_def demo_server_def demo_platform_def info_script_def
        expired_client1_def demo_client1_def AuthProxyClient1_def)
  have returned: "error (fst (?call expired_client1))
        = Some \<lparr>code = None, message = Some ''Status: 401. Unauthorized''\<rparr>
      \<and> result (fst (?call expired_client1)) = None"
    unfolding answered by (simp add: response_of_def ok_def reply_def string_of_nat_values)
  have requests: "map url (sent (snd (?call expired_client1)))
      = [''https://test-project.api/auth/v1/get_info'',
         ''https://test-project.api/auth/v1/login_options'']"
    by (simp add: GetInfo_def ApiRequest1_sent build_request_def cookie_header_def truthy_def
        defaultHeaders_def GET_def trim_def isWhiteSpace_def demo_server_def demo_platform_def
        info_script_def reply_def expired_client1_def demo_client1_def AuthProxyClient1_def)
  have pending: "length (background (snd (?call expired_client1))) = 1
      \<and> sessionId (snd (?call expired_client1)) = Some ''old''"
    by (simp add: GetInfo_def ApiRequest1_def Connect_unawaited_def call_fetch_def
        build_request_def cookie_header_def truthy_def defaultHeaders_def GET_def trim_def
        isWhiteSpace_def demo_server_def demo_platform_def info_script_def reply_def
        expired_client1_def demo_client1_def AuthProxyClient1_def Let_def)
  have awaited: "result (fst (?call (snd (Connect1 demo_server True expired_client1))))
      = Some (JObj [(''name'', JStr ''demo'')])"
    by (simp add: GetInfo_def ApiRequest1_def Connect_unawaited_def Connect1_def
        SignInUserKey1_def getDeviceGuid1_def empty_config_def call_fetch_def build_request_def
        response_of_def ok_def collect_headers_def cookie_header_def truthy_def defaultHeaders_def
        cookie_sid_def trim_def isWhiteSpace_def GET_def generateKeys_def base64ToUint8Array_def
        demo_platform_def options_ok_def not_found_def answer_def reply_def world0_def
        demo_options_def demo_server_def login_script_def success_body_def info_script_def
        expired_client1_def demo_client1_def AuthProxyClient1_def Let_def)
  show ?thesis
    using returned requests pending awaited by blast
qed

subsection \<open>A login answered without a usable cookie\<close>

text \<open>
  Claim C2, at a login answered with the status 200 and the body \<open>{result: "Success"}\<close>,
  once with no \<open>Set-Cookie\<close> header and once with the header \<open>lang=en; Path=/\<close>, which
  the pattern does not match:
  \<open>SignInUserKey\<close> of all three classes throws a \<open>TypeError\<close> instead of returning.
\<close>

theorem SignInUserKey_throws_without_cookie:
  "match_sid ''lang=en; Path=/'' = None
   \<and> fst (SignInUserKey1 (demo_platform options_ok (login_script [] success_body) not_found)
         ''key'' demo_client1) = Inl TypeError
   \<and> fst (SignInUserKey2 (demo_platform options_ok (login_script [] success_body) not_found)
         ''key'' demo_client2) = Inl TypeError
   \<and> fst (SignInUserKey3 (demo_platform options_ok (login_script [] success_body) not_found)
         ''key'' demo_client3) = Inl TypeError
   \<and> fst (SignInUserKey1
         (demo_platform options_ok (login_script [(''set-cookie'', ''lang=en; Path=/'')] success_body) not_found)
         ''key'' demo_client1) = Inl TypeError
   \<and> fst (SignInUserKey2
         (demo_platform options_ok (login_script [(''set-cookie'', ''lang=en; Path=/'')] success_body) not_found)
         ''key'' demo_client2) = Inl TypeError
   \<and> fst (SignInUserKey3
         (demo_platform options_ok (login_script [(''set-cookie'', ''lang=en; Path=/'')] success_body) not_found)
         ''key'' demo_client3) = Inl TypeError"
  by (simp add: SignInUserKey1_def ApiRequest1_def getDeviceGuid1_def empty_config_def
      SignInUserKey2_def ApiRequest2_def getDeviceGuid2_def
      SignInUserKey3_def apiLoginOptions_def apiLogin_def ApiRequest3_def
      call_fetch_def build_request_def response_of_def ok_def collect_headers_def
      cookie_header_def truthy_def defaultHeaders_def cookie_sid_def trim_def isWhiteSpace_def GET_def
      generateKeys_def base64ToUint8Array_def
      demo_platform_def options_ok_def not_found_def answer_def reply_def world0_def
      demo_options_def login_script_def success_body_def demo_client1_def demo_client2_def
      demo_client3_def AuthProxyClient1_def AuthProxyClient2_def AuthProxyClient3_def Let_def)

subsection \<open>Enrolment\<close>

text \<open>
  Claim C3, at the code of six spaces, which is blank: \<open>CreateUserKey\<close> of all three
  classes goes on to the network, sends \<open>auth/v1/register_key\<close> with the empty code and,
  the server accepting, returns a new key.
\<close>

theorem CreateUserKey_six_blanks_pass_validation:
  "trim ''      '' = []
   \<and> fst (CreateUserKey (ApiRequest1 (demo_platform options_ok (register_script success_body) not_found)
              (fetch_string (demo_platform options_ok (register_script success_body) not_found)))
            (demo_platform options_ok (register_script success_body) not_found)
            ''      '' demo_options demo_client1)
       = \<lparr>result = Some ''sha256:random-0'', error = None, headers = None\<rparr>
   \<and> fst (CreateUserKey
            (ApiRequest2 (fetch_string (demo_platform options_ok (register_script success_body) not_found)))
            (demo_platform options_ok (register_script success_body) not_found)
            ''      '' demo_options demo_client2)
       = \<lparr>result = Some ''sha256:random-0'', error = None, headers = None\<rparr>
   \<and> map url (sent (snd (CreateUserKey
            (ApiRequest2 (fetch_string (demo_platform options_ok (register_script success_body) not_found)))
            (demo_platform options_ok (register_script success_body) not_found)
            ''      '' demo_options demo_client2)))
       = [''https://test-project.api/auth/v1/register_key'']
   \<and> map (map_option li_code \<circ> req_body) (sent (snd (CreateUserKey
            (ApiRequest2 (fetch_string (demo_platform options_ok (register_script success_body) not_found)))
            (demo_platform options_ok (register_script success_body) not_found)
            ''      '' demo_options demo_client2)))
       = [Some (Some [])]
   \<and> fst (CreateUserKey3 (demo_platform options_ok (register_script success_body) not_found)
            ''      '' demo_options demo_client3)
       = ReturnedKey ''sha256:random-0''"
  by (simp add: CreateUserKey_def CreateUserKey3_def RegisterKey_def ApiRequest3_def
      ApiRequest1_def ApiRequest2_def trim_def isWhiteSpace_def generateKeys_def
      base64ToUint8Array_def
      call_fetch_def build_request_def response_of_def ok_def collect_headers_def
      cookie_header_def truthy_def defaultHeaders_def
      demo_platform_def options_ok_def not_found_def answer_def reply_def world0_def
      demo_options_def register_script_def success_body_def demo_client1_def demo_client2_def
      demo_client3_def AuthProxyClient1_def AuthProxyClient2_def AuthProxyClient3_def Let_def
      string_of_nat_values)

lemma CreateUserKey_decision:
  assumes "\<not> (trim otp = [] \<and> length otp \<noteq> 6)"
  shows "\<exists>response data w s1.
           api ''auth/v1/register_key''
             \<lparr>init_method = ''POST'', init_credentials = None, init_body = Some data,
              init_headers = Map.empty\<rparr> (s\<lparr>world := w\<rparr>) = (response, s1)
           \<and> li_code data = Some (trim otp)
           \<and> CreateUserKey api P otp options s =
               (if truthy (result response) \<and> result response \<noteq> Some ''Failure''
                then \<lparr>result = Some (genSha256 P (fst (getRandomText P (world s)))), error = None,
                      headers = None\<rparr>
                else response, s1)"
proof -
  obtain randomText w1 where r: "getRandomText P (world s) = (randomText, w1)"
    by (cases "getRandomText P (world s)")
  obtain ks w2 where k:
    "generateKeys P (genSha256 P randomText)
       (base64ToUint8Array P (fido2_challenge (fido2_options options))) w1 = (ks, w2)"
    by (cases "generateKeys P (genSha256 P randomText)
       (base64ToUint8Array P (fido2_challenge (fido2_options options))) w1")
  define data where
    "data = \<lparr>li_challenge_id = challenge_id options, li_credential = None,
             li_code = Some (trim otp), li_public_key = public_key ks,
             li_signature = signature ks\<rparr>"
  obtain response s1 where a:
    "api ''auth/v1/register_key''
       \<lparr>init_method = ''POST'', init_credentials = None, init_body = Some data,
        init_headers = Map.empty\<rparr> (s\<lparr>world := w2\<rparr>) = (response, s1)"
    by (cases "api ''auth/v1/register_key''
       \<lparr>init_method = ''POST'', init_credentials = None, init_body = Some data,
        init_headers = Map.empty\<rparr> (s\<lparr>world := w2\<rparr>)")
  have "CreateUserKey api P otp options s =
          (if truthy (result response) \<and> result response \<noteq> Some ''Failure''
           then \<lparr>result = Some (genSha256 P (fst (getRandomText P (world s)))), error = None,
                 headers = None\<rparr>
           else response, s1)"
    using assms r k a by (auto simp: CreateUserKey_def Let_def data_def)
  moreover have "li_code data = Some (trim otp)"
    by (simp add: data_def)
  ultimately show ?thesis
    using a by blast
qed

lemma CreateUserKey3_decision:
  assumes "\<not> (trim otp = [] \<and> length otp \<noteq> 6)"
  shows "\<exists>response data w s1.
           RegisterKey P data (s\<lparr>world3 := w\<rparr>) = (response, s1)
           \<and> li_code data = Some (trim otp)
           \<and> CreateUserKey3 P otp options s =
               (if truthy (result response) \<and> result response \<noteq> Some ''Failure''
                then ReturnedKey (genSha256 P (fst (getRandomText P (world3 s))))
                else ReturnedError (error response), s1)"
proof -
  obtain randomText w1 where r: "getRandomText P (world3 s) = (randomText, w1)"
    by (cases "getRandomText P (world3 s)")
  obtain ks w2 where k:
    "generateKeys P (genSha256 P randomText)
       (base64ToUint8Array P (fido2_challenge (fido2_options options))) w1 = (ks, w2)"
    by (cases "generateKeys P (genSha256 P randomText)
       (base64ToUint8Array P (fido2_challenge (fido2_options options))) w1")
  define data where
    "data = \<lparr>li_challenge_id = challenge_id options, li_credential = None,
             li_code = Some (trim otp), li_public_key = public_key ks,
             li_signature = signature ks\<rparr>"
  obtain response s1 where a: "RegisterKey P data (s\<lparr>world3 := w2\<rparr>) = (response, s1)"
    by (cases "RegisterKey P data (s\<lparr>world3 := w2\<rparr>)")
  have "CreateUserKey3 P otp options s =
          (if truthy (result response) \<and> result response \<noteq> Some ''Failure''
           then ReturnedKey (genSha256 P (fst (getRandomText P (world3 s))))
           else ReturnedError (error response), s1)"
    using assms r k a by (auto simp: CreateUserKey3_def Let_def data_def)
  moreover have "li_code data = Some (trim otp)"
    by (simp add: data_def)
  ultimately show ?thesis
    using a by blast
qed

text \<open>
  Claim C7 as stated fails where the registration response carries the empty string as
  \<open>result\<close>: the result is present and is not \<open>Failure\<close>, yet \<open>CreateUserKey\<close> returns
  the response as it came, without a key (the first SDK returns the absent \<open>error\<close>).
  And where the server answers \<open>{result: "Failure"}\<close>, what is returned is that response,
  which holds no error; the first SDK returns \<open>undefined\<close>.
\<close>

theorem CreateUserKey_empty_result_counterexample:
  "fst (fetch_string (demo_platform options_ok (register_script (JsonBody (Some []) None)) not_found)
         (build_request demo_client2 ''auth/v1/register_key''
            \<lparr>init_method = ''POST'', init_credentials = None, init_body = None,
             init_headers = Map.empty\<rparr>) world0)
     = reply 200 ''OK'' [] (JsonBody (Some []) None)
   \<and> fst (CreateUserKey
        (ApiRequest2 (fetch_string (demo_platform options_ok (register_script (JsonBody (Some []) None)) not_found)))
        (demo_platform options_ok (register_script (JsonBody (Some []) None)) not_found)
        ''123456'' demo_options demo_client2)
      = \<lparr>result = Some [], error = None, headers = Some (collect_headers [])\<rparr>
   \<and> fst (CreateUserKey3 (demo_platform options_ok (register_script (JsonBody (Some []) None)) not_found)
        ''123456'' demo_options demo_client3)
      = ReturnedError None
   \<and> fst (CreateUserKey
        (ApiRequest2 (fetch_string (demo_platform options_ok (register_script failure_body) not_found)))
        (demo_platform options_ok (register_script failure_body) not_found)
        ''123456'' demo_options demo_client2)
      = \<lparr>result = Some ''Failure'', error = None, headers = Some (collect_headers [])\<rparr>
   \<and> fst (CreateUserKey3 (demo_platform options_ok (register_script failure_body) not_found)
        ''123456'' demo_options demo_client3)
      = ReturnedError None"
  by (simp add: CreateUserKey_def CreateUserKey3_def RegisterKey_def ApiRequest3_def failure_body_def
      ApiRequest2_def trim_def isWhiteSpace_def generateKeys_def base64ToUint8Array_def
      call_fetch_def build_request_def response_of_def ok_def collect_headers_def
      cookie_header_def truthy_def defaultHeaders_def
      demo_platform_def options_ok_def not_found_def answer_def reply_def world0_def
      demo_options_def register_script_def demo_client2_def demo_client3_def
      AuthProxyClient2_def AuthProxyClient3_def Let_def string_of_nat_values)

text \<open>
  Claim C7, amended. Once the validation has passed, \<open>CreateUserKey\<close> sends one
  registration request carrying the trimmed code and returns the new key - the digest
  \<open>genSha256\<close> of the text \<open>getRandomText\<close> draws at the call - exactly when the
  \<open>result\<close> of the response is a non-empty string other than \<open>Failure\<close>; otherwise it
  returns the registration response itself (in the first SDK its \<open>error\<close> property),
  whose \<open>result\<close> is then absent, empty or \<open>Failure\<close>.
\<close>

theorem CreateUserKey_returns_key_iff:
  assumes "\<not> (trim otp = [] \<and> length otp \<noteq> 6)"
  shows "(\<exists>response data w s'.
            api ''auth/v1/register_key''
              \<lparr>init_method = ''POST'', init_credentials = None, init_body = Some data,
               init_headers = Map.empty\<rparr> (s\<lparr>world := w\<rparr>) = (response, s')
            \<and> li_code data = Some (trim otp)
            \<and> CreateUserKey api P otp options s =
                (if truthy (result response) \<and> result response \<noteq> Some ''Failure''
                 then \<lparr>result = Some (genSha256 P (fst (getRandomText P (world s)))), error = None,
                       headers = None\<rparr>
                 else response, s'))
         \<and> (\<exists>response data w s'.
            RegisterKey P data (s3\<lparr>world3 := w\<rparr>) = (response, s')
            \<and> li_code data = Some (trim otp)
            \<and> CreateUserKey3 P otp options s3 =
                (if truthy (result response) \<and> result response \<noteq> Some ''Failure''
                 then ReturnedKey (genSha256 P (fst (getRandomText P (world3 s3))))
                 else ReturnedError (error response), s'))"
  using CreateUserKey_decision [OF assms] CreateUserKey3_decision [OF assms] by blast

theorem CreateUserKey_returns_key_iff_witness:
  "\<not> (trim ''123456'' = [] \<and> length ''123456'' \<noteq> 6)
   \<and> (\<exists>response data w s'.
         ApiRequest2 (fetch_string (demo_platform options_ok (register_script failure_body) not_found))
           ''auth/v1/register_key''
           \<lparr>init_method = ''POST'', init_credentials = None, init_body = Some data,
            init_headers = Map.empty\<rparr> (demo_client2\<lparr>world := w\<rparr>) = (response, s')
         \<and> li_code data = Some (trim ''123456'')
         \<and> CreateUserKey
             (ApiRequest2 (fetch_string (demo_platform options_ok (register_script failure_body) not_found)))
             (demo_platform options_ok (register_script failure_body) not_found)
             ''123456'' demo_options demo_client2 =
             (if truthy (result response) \<and> result response \<noteq> Some ''Failure''
              then \<lparr>result = Some (genSha256 (demo_platform options_ok (register_script failure_body) not_found)
                      (fst (getRandomText (demo_platform options_ok (register_script failure_body) not_found)
                         (world demo_client2)))), error = None, headers = None\<rparr>
              else response, s'))
   \<and> result (fst (CreateUserKey
             (ApiRequest2 (fetch_string (demo_platform options_ok (register_script failure_body) not_found)))
             (demo_platform options_ok (register_script failure_body) not_found)
             ''123456'' demo_options demo_client2)) = Some ''Failure''"
proof -
  have valid: "\<not> (trim ''123456'' = [] \<and> length ''123456'' \<noteq> 6)"
    by simp
  have run: "result (fst (CreateUserKey
             (ApiRequest2 (fetch_string (demo_platform options_ok (register_script failure_body) not_found)))
             (demo_platform options_ok (register_script failure_body) not_found)
             ''123456'' demo_options demo_client2)) = Some ''Failure''"
    by (simp add: CreateUserKey_def ApiRequest2_def trim_def isWhiteSpace_def generateKeys_def
        base64ToUint8Array_def
        call_fetch_def build_request_def response_of_def ok_def collect_headers_def
        cookie_header_def truthy_def defaultHeaders_def
        demo_platform_def options_ok_def not_found_def answer_def reply_def world0_def
        demo_options_def register_script_def failure_body_def demo_client2_def
        AuthProxyClient2_def Let_def string_of_nat_values)
  show ?thesis
    using valid run
      CreateUserKey_returns_key_iff [OF valid,
        of "ApiRequest2 (fetch_string (demo_platform options_ok (register_script failure_body) not_found))"
           demo_client2 "demo_platform options_ok (register_script failure_body) not_found"
           demo_options demo_client3]
    by blast
qed

subsection \<open>Key derivation\<close>

text \<open>
  Claim C4. \<open>generateKeys\<close> draws on nothing but its two arguments and the three calls
  into \<open>elliptic\<close>: given that each of those returns the same value wherever it is
  called, two runs on the same secret and challenge, in any two worlds, return the same
  \<open>public_key\<close> and \<open>signature\<close>. No condition on the secret or the challenge is
  needed.
\<close>

theorem generateKeys_deterministic:
  assumes "deterministic_library P"
  shows "fst (generateKeys P secret challengeBuf w) = fst (generateKeys P secret challengeBuf w')"
proof -
  have key: "fst (keyFromSecret P secret w) = fst (keyFromSecret P secret w')"
    using assms unfolding deterministic_library_def by blast
  have pub: "fst (getPublic P k v) = fst (getPublic P k v')" for k v v'
    using assms unfolding deterministic_library_def by blast
  have sig: "fst (sign P k m v) = fst (sign P k m v')" for k m v v'
    using assms unfolding deterministic_library_def by blast
  show ?thesis
    unfolding generateKeys_def Let_def case_prod_unfold fst_conv key
    using pub sig by metis
qed

theorem generateKeys_deterministic_witness:
  "deterministic_library demo_server
   \<and> fst (generateKeys demo_server ''key'' [1, 2, 3] world0)
     = fst (generateKeys demo_server ''key'' [1, 2, 3] (world0\<lparr>drawn := 7\<rparr>))"
proof -
  have lib: "deterministic_library demo_server"
    by (simp add: deterministic_library_def demo_server_def demo_platform_def)
  show ?thesis
    using lib
      generateKeys_deterministic [OF lib, of "''key''" "[1, 2, 3]" world0 "world0\<lparr>drawn := 7\<rparr>"]
    by simp
qed

subsection \<open>The push channel\<close>

text \<open>
  Claim C9 as stated fails for a payload that is not JSON: \<open>JSON.parse\<close> throws, the
  error is logged, and the consumer is given \<open>null\<close>, not the payload \<open>hello\<close>.
\<close>

theorem onmessage_undecodable_counterexample:
  "JSON_parse demo_server ''hello'' = Inl SyntaxError
   \<and> fst (getMessageFromEvent demo_server (JStr ''hello'') demo_client2) = JNull
   \<and> console (snd (onmessage demo_server recording_consumer (JStr ''hello'') demo_client2))
      = [ConsoleLog [JStr ''Message received:'', JStr ''hello''],
         ConsoleError ''Error parsing message:'', ConsoleLog [JNull]]
   \<and> JNull \<noteq> JStr ''hello''"
  by (simp add: onmessage_def getMessageFromEvent_def recording_consumer_def demo_server_def
      demo_platform_def demo_client2_def AuthProxyClient2_def Let_def)

text \<open>
  Claim C9, amended. For every inbound message the callback gives the consumer the
  value \<open>JSON.parse\<close> returns for a string payload; where the parse throws the consumer
  is given \<open>null\<close> and the line \<open>Error parsing message:\<close> is written to the console;
  for a payload that is not a string the consumer is given \<open>undefined\<close>. The decoding
  itself throws nothing: the only exception of the callback is one of the consumer.
\<close>

theorem onmessage_delivers_decoded_or_null:
  "onmessage P handleMessage data s =
     handleMessage
       (case data of
          JStr m \<Rightarrow> (case JSON_parse P m of Inl e \<Rightarrow> JNull | Inr v \<Rightarrow> v)
        | _ \<Rightarrow> JUndefined)
       (s\<lparr>console := console s @ ConsoleLog [JStr ''Message received:'', data] #
            (case data of
               JStr m \<Rightarrow> (case JSON_parse P m of Inl e \<Rightarrow> [ConsoleError ''Error parsing message:''] | Inr v \<Rightarrow> [])
             | _ \<Rightarrow> [ConsoleLog [data]])\<rparr>)"
  by (simp add: onmessage_def getMessageFromEvent_def Let_def split: jsval.splits sum.splits)

text \<open>
  What no call of the client without reconnect changes: the flag \<open>isConnectedES\<close>, and
  that a stored session is not the empty string.
\<close>

lemma match_sid_nonempty: "match_sid c = Some v \<Longrightarrow> v \<noteq> []"
  by (induction c) (auto simp: Let_def split: if_splits)

lemma cookie_sid_nonempty: "cookie_sid r = Inr v \<Longrightarrow> v \<noteq> []"
  by (auto simp: cookie_sid_def split: option.splits dest: match_sid_nonempty)

lemma SignInUserKey2_flag:
  "isConnectedES (snd (SignInUserKey2 P k s)) = isConnectedES s"
  by (auto simp: SignInUserKey2_def Let_def
      split: prod.splits option.splits sum.splits if_splits
      dest!: ApiRequest2_keeps(2) getDeviceGuid2_keeps(2))

lemma SignInUserKey2_sid:
  "sessionId s \<noteq> Some [] \<Longrightarrow> sessionId (snd (SignInUserKey2 P k s)) \<noteq> Some []"
  by (auto simp: SignInUserKey2_def Let_def
      split: prod.splits option.splits sum.splits if_splits
      dest!: ApiRequest2_keeps(1) getDeviceGuid2_keeps(1) cookie_sid_nonempty)

lemma ApiRequest2_snd:
  "sessionId (snd (ApiRequest2 f u i s)) = sessionId s"
  "isConnectedES (snd (ApiRequest2 f u i s)) = isConnectedES s"
  by (simp_all add: ApiRequest2_def call_fetch_def Let_def split: prod.splits)

lemma getDeviceGuid2_snd:
  "sessionId (snd (getDeviceGuid2 P s)) = sessionId s"
  "isConnectedES (snd (getDeviceGuid2 P s)) = isConnectedES s"
  by (simp_all add: getDeviceGuid2_def Let_def split: prod.splits)

lemma ResetPassword2_snd:
  "sessionId (snd (ResetPassword2 P ph s)) = sessionId s"
  "isConnectedES (snd (ResetPassword2 P ph s)) = isConnectedES s"
  by (simp_all add: ResetPassword2_def Let_def case_prod_unfold ApiRequest2_snd getDeviceGuid2_snd)

lemma CreateUserKey2_snd:
  "sessionId (snd (CreateUserKey (ApiRequest2 f) P otp opts s)) = sessionId s"
  "isConnectedES (snd (CreateUserKey (ApiRequest2 f) P otp opts s)) = isConnectedES s"
  by (auto simp: CreateUserKey_def Let_def split: prod.splits dest: ApiRequest2_keeps)

lemma InitializeNewKey2_snd:
  "sessionId (snd (InitializeNewKey (ApiRequest2 f) c s)) = sessionId s"
  "isConnectedES (snd (InitializeNewKey (ApiRequest2 f) c s)) = isConnectedES s"
  by (simp_all add: InitializeNewKey_def ApiRequest2_snd)

lemma getMessageFromEvent_snd:
  "sessionId (snd (getMessageFromEvent P m s)) = sessionId s"
  "isConnectedES (snd (getMessageFromEvent P m s)) = isConnectedES s"
  by (simp_all add: getMessageFromEvent_def Let_def split: jsval.splits sum.splits)

lemma onmessage_default_snd:
  "snd (onmessage P (\<lambda>v t. (None, t)) m s) = snd (getMessageFromEvent P m s)"
  by (simp add: onmessage_def split: prod.splits)

lemma Subscribe2_snd:
  "sessionId (snd (Subscribe2 P s)) = sessionId s"
  "isConnectedES (snd (Subscribe2 P s)) = isConnectedES s"
  by (simp_all add: Subscribe2_def split: prod.splits sum.splits)

lemma Unsubscribe2_snd:
  "sessionId (snd (Unsubscribe2 P s)) = sessionId s"
  "isConnectedES (snd (Unsubscribe2 P s)) = isConnectedES s"
  by (simp_all add: Unsubscribe2_def split: option.splits)

lemma do_call2_flag: "isConnectedES (do_call2 P c s) = isConnectedES s"
  by (cases c)
     (simp_all add: SignInUserKey2_flag GetInfo_def GetLoginLog_def Logout_def ApiRequest2_snd
        ResetPassword2_snd InitializeNewKey2_snd CreateUserKey2_snd Subscribe2_snd Unsubscribe2_snd
        onmessage_default_snd getMessageFromEvent_snd)

lemma do_call2_sid: "sessionId s \<noteq> Some [] \<Longrightarrow> sessionId (do_call2 P c s) \<noteq> Some []"
  by (cases c)
     (simp_all add: SignInUserKey2_sid GetInfo_def GetLoginLog_def Logout_def ApiRequest2_snd
        ResetPassword2_snd InitializeNewKey2_snd CreateUserKey2_snd Subscribe2_snd Unsubscribe2_snd
        onmessage_default_snd getMessageFromEvent_snd)

lemma run2_flag: "isConnectedES (run2 P cs s) = isConnectedES s"
  unfolding run2_def by (induction cs arbitrary: s) (simp_all add: do_call2_flag)

lemma run2_sid: "sessionId s \<noteq> Some [] \<Longrightarrow> sessionId (run2 P cs s) \<noteq> Some []"
  unfolding run2_def by (induction cs arbitrary: s) (simp_all add: do_call2_sid)

lemma Subscribe2_times_open:
  assumes "always_opens P" and "\<not> isConnectedES s" and "truthy (sessionId s)"
  shows "fst (Subscribe2_times P n s) = replicate n True"
  using assms(2,3)
proof (induction n arbitrary: s)
  case 0
  then show ?case by simp
next
  case (Suc n)
  obtain es where es: "fst (new_EventSource P (BaseUrl s @ ''auth/v1/Subscribe'') (world s)) = Inr es"
    using assms(1) unfolding always_opens_def by blast
  have first: "fst (Subscribe2 P s) = True"
    using Suc.prems es
    by (cases "new_EventSource P (BaseUrl s @ ''auth/v1/Subscribe'') (world s)")
       (simp add: Subscribe2_def)
  have rest: "fst (Subscribe2_times P n (snd (Subscribe2 P s))) = replicate n True"
    using Suc.prems by (intro Suc.IH) (simp_all add: Subscribe2_snd)
  show ?case
    using first rest by (simp add: Let_def case_prod_unfold)
qed

text \<open>
  Claim C10. After any sequence of calls on a new client of the class without
  reconnect, \<open>isConnectedES\<close> is false and \<open>Unsubscribe\<close> returns false and changes
  nothing; with a session stored, \<open>Subscribe\<close> returns true whenever the constructor of
  \<open>EventSource\<close> returns an object, however many opens came before, so that \<open>n\<close> calls
  in a row all return true, for every \<open>n\<close>, as long as the constructor does not throw.
\<close>

theorem isConnectedES_never_set:
  "\<not> isConnectedES (run2 P cs (AuthProxyClient2 baseUrl w))
   \<and> Unsubscribe2 P (run2 P cs (AuthProxyClient2 baseUrl w))
       = (Inr False, run2 P cs (AuthProxyClient2 baseUrl w))
   \<and> (sessionId (run2 P cs (AuthProxyClient2 baseUrl w)) \<noteq> None \<longrightarrow>
        fst (Subscribe2 P (run2 P cs (AuthProxyClient2 baseUrl w)))
          = (\<exists>es. fst (new_EventSource P
                (BaseUrl (run2 P cs (AuthProxyClient2 baseUrl w)) @ ''auth/v1/Subscribe'')
                (world (run2 P cs (AuthProxyClient2 baseUrl w)))) = Inr es))
   \<and> (sessionId (run2 P cs (AuthProxyClient2 baseUrl w)) \<noteq> None \<and> always_opens P \<longrightarrow>
        fst (Subscribe2_times P n (run2 P cs (AuthProxyClient2 baseUrl w))) = replicate n True)"
proof -
  let ?s = "run2 P cs (AuthProxyClient2 baseUrl w)"
  have flag: "\<not> isConnectedES ?s"
    by (simp add: run2_flag AuthProxyClient2_def)
  have sid: "sessionId ?s \<noteq> Some []"
    by (rule run2_sid) (simp add: AuthProxyClient2_def)
  have active: "truthy (sessionId ?s)" if "sessionId ?s \<noteq> None"
    using that sid by (auto simp: truthy_def split: option.splits)
  have once: "fst (Subscribe2 P ?s)
      = (\<exists>es. fst (new_EventSource P (BaseUrl ?s @ ''auth/v1/Subscribe'') (world ?s)) = Inr es)"
    if "sessionId ?s \<noteq> None"
    using flag active [OF that]
    by (cases "new_EventSource P (BaseUrl ?s @ ''auth/v1/Subscribe'') (world ?s)")
       (auto simp: Subscribe2_def split: sum.splits)
  have many: "fst (Subscribe2_times P n ?s) = replicate n True"
    if "sessionId ?s \<noteq> None" and "always_opens P"
    using that flag active by (intro Subscribe2_times_open) simp_all
  have off: "Unsubscribe2 P ?s = (Inr False, ?s)"
    using flag by (simp add: Unsubscribe2_def)
  show ?thesis
    using flag off once many by blast
qed

theorem isConnectedES_never_set_witness:
  "sessionId (run2 demo_server [CallSignInUserKey ''key'', CallSubscribe]
       (AuthProxyClient2 ''https://test-project.api/'' world0)) \<noteq> None
   \<and> always_opens demo_server
   \<and> \<not> isConnectedES (run2 demo_server [CallSignInUserKey ''key'', CallSubscribe]
       (AuthProxyClient2 ''https://test-project.api/'' world0))
   \<and> Unsubscribe2 demo_server (run2 demo_server [CallSignInUserKey ''key'', CallSubscribe]
       (AuthProxyClient2 ''https://test-project.api/'' world0))
       = (Inr False, run2 demo_server [CallSignInUserKey ''key'', CallSubscribe]
       (AuthProxyClient2 ''https://test-project.api/'' world0))
   \<and> fst (Subscribe2 demo_server (run2 demo_server [CallSignInUserKey ''key'', CallSubscribe]
       (AuthProxyClient2 ''https://test-project.api/'' world0)))
   \<and> fst (Subscribe2_times demo_server 3 (run2 demo_server [CallSignInUserKey ''key'', CallSubscribe]
       (AuthProxyClient2 ''https://test-project.api/'' world0))) = replicate 3 True"
proof -
  have session: "sessionId (run2 demo_server [CallSignInUserKey ''key'', CallSubscribe]
       (AuthProxyClient2 ''https://test-project.api/'' world0)) \<noteq> None"
    by (simp add: run2_def SignInUserKey2_def ApiRequest2_def getDeviceGuid2_def Subscribe2_def
        call_fetch_def build_request_def response_of_def ok_def collect_headers_def
        cookie_header_def truthy_def defaultHeaders_def cookie_sid_def trim_def isWhiteSpace_def GET_def
        generateKeys_def base64ToUint8Array_def
        demo_platform_def options_ok_def not_found_def answer_def reply_def world0_def
        demo_options_def demo_server_def login_script_def success_body_def info_script_def
        AuthProxyClient2_def Let_def)
  have opens: "always_opens demo_server"
    by (simp add: always_opens_def demo_server_def demo_platform_def)
  have constructed: "\<exists>es. fst (new_EventSource demo_server u v) = Inr es" for u v
    using opens by (simp add: always_opens_def)
  show ?thesis
    using session opens constructed
      isConnectedES_never_set [of demo_server "[CallSignInUserKey ''key'', CallSubscribe]"
        "''https://test-project.api/''" world0 3]
    by simp
qed

text \<open>
  Without a session \<open>Subscribe\<close> returns false in both classes and leaves the client and
  the world as they were: no \<open>EventSource\<close> is constructed. The class with reconnect
  refuses the open that follows a successful one.
\<close>

lemma Subscribe_without_session:
  assumes "\<not> truthy (sessionId s)"
  shows "Subscribe1 P s = (False, s)" and "Subscribe2 P s = (False, s)"
  using assms by (simp_all add: Subscribe1_def Subscribe2_def)

lemma Subscribe1_refuses_second_open:
  assumes "Subscribe1 P s = (True, s')"
  shows "Subscribe1 P s' = (False, s')"
  using assms by (auto simp: Subscribe1_def split: if_splits prod.splits sum.splits)

text \<open>
  Claim C8. Without a session both classes refuse, as the claim says. At the client
  without reconnect after a successful sign-in, two calls of \<open>Subscribe\<close> in a row both
  return true and two \<open>EventSource\<close> objects are constructed; the class with reconnect
  refuses the second call on the same client.
\<close>

theorem Subscribe2_second_open_not_refused:
  "Subscribe1 demo_server demo_client1 = (False, demo_client1)
   \<and> Subscribe2 demo_server demo_client2 = (False, demo_client2)
   \<and> sessionId (snd (SignInUserKey2 demo_server ''key'' demo_client2)) = Some ''abc123''
   \<and> fst (Subscribe2_times demo_server 2 (snd (SignInUserKey2 demo_server ''key'' demo_client2)))
       = [True, True]
   \<and> opened (world (snd (Subscribe2_times demo_server 2
        (snd (SignInUserKey2 demo_server ''key'' demo_client2))))) = 2
   \<and> fst (Subscribe1 demo_server (snd (SignInUserKey1 demo_server ''key'' demo_client1))) = True
   \<and> fst (Subscribe1 demo_server (snd (Subscribe1 demo_server
        (snd (SignInUserKey1 demo_server ''key'' demo_client1))))) = False"
proof -
  have none1: "\<not> truthy (sessionId demo_client1)"
    by (simp add: truthy_def demo_client1_def AuthProxyClient1_def)
  have none2: "\<not> truthy (sessionId demo_client2)"
    by (simp add: truthy_def demo_client2_def AuthProxyClient2_def)
  have refused1: "Subscribe1 demo_server demo_client1 = (False, demo_client1)"
    using none1 by (rule Subscribe_without_session)
  have refused2: "Subscribe2 demo_server demo_client2 = (False, demo_client2)"
    using none2 by (rule Subscribe_without_session)
  have twice:
    "sessionId (snd (SignInUserKey2 demo_server ''key'' demo_client2)) = Some ''abc123''
     \<and> fst (Subscribe2_times demo_server 2 (snd (SignInUserKey2 demo_server ''key'' demo_client2)))
         = [True, True]
     \<and> opened (world (snd (Subscribe2_times demo_server 2
          (snd (SignInUserKey2 demo_server ''key'' demo_client2))))) = 2"
    by (simp add: SignInUserKey2_def ApiRequest2_def getDeviceGuid2_def Subscribe2_def
        call_fetch_def build_request_def response_of_def ok_def collect_headers_def
        cookie_header_def truthy_def defaultHeaders_def cookie_sid_def trim_def isWhiteSpace_def
        GET_def generateKeys_def base64ToUint8Array_def
        demo_platform_def options_ok_def not_found_def answer_def reply_def world0_def
        demo_options_def demo_server_def login_script_def success_body_def info_script_def
        demo_client2_def AuthProxyClient2_def Let_def numeral_2_eq_2)
  have first:
    "fst (Subscribe1 demo_server (snd (SignInUserKey1 demo_server ''key'' demo_client1))) = True"
    by (simp add: SignInUserKey1_def ApiRequest1_def getDeviceGuid1_def empty_config_def
        Subscribe1_def
        call_fetch_def build_request_def response_of_def ok_def collect_headers_def
        cookie_header_def truthy_def defaultHeaders_def cookie_sid_def trim_def isWhiteSpace_def
        GET_def generateKeys_def base64ToUint8Array_def
        demo_platform_def options_ok_def not_found_def answer_def reply_def world0_def
        demo_options_def demo_server_def login_script_def success_body_def info_script_def
        demo_client1_def AuthProxyClient1_def Let_def)
  have "Subscribe1 demo_server (snd (SignInUserKey1 demo_server ''key'' demo_client1))
          = (True, snd (Subscribe1 demo_server (snd (SignInUserKey1 demo_server ''key'' demo_client1))))"
    using first by (simp add: prod_eq_iff)
  then have "Subscribe1 demo_server
          (snd (Subscribe1 demo_server (snd (SignInUserKey1 demo_server ''key'' demo_client1))))
        = (False, snd (Subscribe1 demo_server (snd (SignInUserKey1 demo_server ''key'' demo_client1))))"
    by (rule Subscribe1_refuses_second_open)
  then have second:
    "fst (Subscribe1 demo_server (snd (Subscribe1 demo_server
        (snd (SignInUserKey1 demo_server ''key'' demo_client1))))) = False"
    by simp
  show ?thesis
    using refused1 refused2 twice first second by blast
qed

end
